theory Spec2Isabelle
  imports Main "HOL-Library.Word"
begin

section \<open>The gRPC-Web client of legal\_grpc\_client.cpp\<close>

text \<open>
  The class \<open>LegalGrpcWebClient\<close> keeps a registry \<open>active_streams_\<close> of streaming
  sessions and talks to a gRPC stub. The stub, the streams it returns and the JavaScript
  callbacks are outside the file: every call the client makes on them is recorded as an
  \<open>event\<close>, in program order, and every value they give back (the result of
  \<open>Write\<close>, of \<open>Read\<close>, the \<open>Status\<close> of \<open>Finish\<close>, whether the host's
  \<open>JSON.parse\<close> accepts a text) is an argument of the operation that receives it, so a
  theorem about an operation holds for every behaviour of the transport and of the host.
  A JavaScript callback is taken to return when it is called.

  The member functions that touch the registry take \<open>streams_mutex_\<close> for their
  whole body: none of them runs while another one does. The three setters take no mutex:
  the host can call them at any time, also while a reader thread is in its loop, and the
  reader is given the setter calls that happen during each of its steps. The threads of the
  one-shot jobs take no mutex either and touch no field of the client.
\<close>

subsection \<open>Messages\<close>

text \<open>A \<open>float\<close> is only copied by this file: it is kept as its 32 bits.\<close>

type_synonym float32 = "32 word"

text \<open>An \<open>emscripten::val\<close> that holds a JavaScript function, by its identity.\<close>

type_synonym callback = nat

text \<open>A stream object returned by the stub, by its identity.\<close>

type_synonym stream_handle = nat

text \<open>
  An inbound message of a streaming session is kept as the text that
  \<open>cudaResponseToJson\<close> renders for it: the reader hands that text, as it is, to the
  response callback and does nothing else with the message.
\<close>

type_synonym json = string

text \<open>
  \<open>EM_ASM\<close> gets a text as \<open>c_str()\<close> and reads it with \<open>UTF8ToString\<close>: what
  JavaScript sees ends before the first NUL. The bytes are kept as they are.
\<close>

definition UTF8ToString :: "string \<Rightarrow> string" where
  "UTF8ToString s = takeWhile (\<lambda>ch. ch \<noteq> CHR 0x00) s"

text \<open>
  The protobuf messages, with the fields this file sets. A fresh message has the protobuf
  defaults: empty strings, \<open>false\<close>, zero, no repeated element, no sub-message.
\<close>

record CudaOptions =
  use_tensor_cores :: bool
  batch_size :: int
  enable_memory_pool :: bool

record CudaRequest =
  req_session_id :: string
  operation_type :: string
  raw_text :: string
  is_final_chunk :: bool
  embedding_vector :: "float32 list"
  cuda_options :: "CudaOptions option"

definition CudaRequest_new :: CudaRequest where
  "CudaRequest_new =
     \<lparr>req_session_id = [], operation_type = [], raw_text = [], is_final_chunk = False,
      embedding_vector = [], cuda_options = None\<rparr>"

record ProcessingFlags =
  extract_entities :: bool
  generate_summary :: bool
  compute_embeddings :: bool
  analyze_sentiment :: bool
  detect_clauses :: bool

definition ProcessingFlags_new :: ProcessingFlags where
  "ProcessingFlags_new =
     \<lparr>extract_entities = False, generate_summary = False, compute_embeddings = False,
      analyze_sentiment = False, detect_clauses = False\<rparr>"

record DocumentRequest =
  document_id :: string
  document_content :: string
  document_type :: string
  flags :: "ProcessingFlags option"

definition DocumentRequest_new :: DocumentRequest where
  "DocumentRequest_new =
     \<lparr>document_id = [], document_content = [], document_type = [], flags = None\<rparr>"

record SearchRequest =
  query :: string
  collection_name :: string
  top_k :: int
  enable_reranking :: bool
  has_filters :: bool

definition SearchRequest_new :: SearchRequest where
  "SearchRequest_new =
     \<lparr>query = [], collection_name = [], top_k = 0, enable_reranking = False,
      has_filters = False\<rparr>"

record SimilarityMetrics =
  factual_similarity :: bool
  legal_precedent_similarity :: bool
  outcome_similarity :: bool
  procedural_similarity :: bool

definition SimilarityMetrics_new :: SimilarityMetrics where
  "SimilarityMetrics_new =
     \<lparr>factual_similarity = False, legal_precedent_similarity = False,
      outcome_similarity = False, procedural_similarity = False\<rparr>"

record SimilarityRequest =
  base_case_id :: string
  compare_case_ids :: "string list"
  requested_metrics :: "SimilarityMetrics option"

definition SimilarityRequest_new :: SimilarityRequest where
  "SimilarityRequest_new = \<lparr>base_case_id = [], compare_case_ids = [], requested_metrics = None\<rparr>"

text \<open>\<open>grpc::Status\<close>, as far as the file reads it.\<close>

record Status =
  ok :: bool
  error_message :: string

text \<open>
  The responses of the one-shot jobs, with the one field the conversion helpers read, and
  the helpers. They put the field between quotes as it is, with nothing escaped.
\<close>

record DocumentResponse =
  response_document_id :: string

record SearchResponse =
  response_query_id :: string

record SimilarityResponse =
  response_base_case_id :: string

definition double_quote :: char where
  "double_quote = CHR 0x22"

definition documentResponseToJson :: "DocumentResponse \<Rightarrow> string" where
  "documentResponseToJson response =
     ''{'' @ [double_quote] @ ''document_id'' @ [double_quote] @ '':'' @ [double_quote] @
     response_document_id response @ [double_quote] @ ''}''"

definition searchResponseToJson :: "SearchResponse \<Rightarrow> string" where
  "searchResponseToJson response =
     ''{'' @ [double_quote] @ ''query_id'' @ [double_quote] @ '':'' @ [double_quote] @
     response_query_id response @ [double_quote] @ ''}''"

definition similarityResponseToJson :: "SimilarityResponse \<Rightarrow> string" where
  "similarityResponseToJson response =
     ''{'' @ [double_quote] @ ''base_case_id'' @ [double_quote] @ '':'' @ [double_quote] @
     response_base_case_id response @ [double_quote] @ ''}''"

subsection \<open>What the client does to the outside\<close>

datatype event =
    OpenStream stream_handle bool
      \<comment> \<open>\<open>stub_->BidirectionalLegalStream\<close>; the flag says whether the remote stream got
          established, which the stub does not tell its caller\<close>
  | SpawnReader string
      \<comment> \<open>a detached thread that will call \<open>readStreamResponses\<close>\<close>
  | SpawnDocumentThread callback
  | SpawnSearchThread callback
  | SpawnSimilarityThread callback
      \<comment> \<open>the detached thread of a one-shot job, with the callback it captured\<close>
  | Write stream_handle CudaRequest
  | WritesDone stream_handle
  | Read stream_handle "json option"
      \<comment> \<open>\<open>stream->Read\<close>: the message, or \<open>None\<close> when it returned false\<close>
  | Finish stream_handle Status
  | ResponseCallback callback json
  | ErrorCallback callback string
  | CompletionCallback callback
  | OpenDocumentReader DocumentRequest
  | OpenSearchReader SearchRequest
  | OpenSimilarityReader SimilarityRequest
  | ReaderRead "string option"
      \<comment> \<open>\<open>reader->Read\<close> of a one-shot job: the text the helper renders for the
          message, or \<open>None\<close> when it returned false\<close>
  | ReaderFinish Status
  | JsCallback callback string
      \<comment> \<open>the progress, results or similarity callback of a one-shot job, called with
          what \<open>JSON.parse\<close> made of the text\<close>
  | ConsoleError string
  | LogInitialized string
  | LogStarted string
  | LogClosed string

fun is_completion :: "event \<Rightarrow> bool" where
  "is_completion (CompletionCallback f) = True"
| "is_completion e = False"

fun is_write :: "event \<Rightarrow> bool" where
  "is_write (Write h r) = True"
| "is_write e = False"

fun is_writes_done :: "event \<Rightarrow> bool" where
  "is_writes_done (WritesDone h) = True"
| "is_writes_done e = False"

fun is_open :: "event \<Rightarrow> bool" where
  "is_open (OpenStream h b) = True"
| "is_open e = False"

fun is_open_document :: "event \<Rightarrow> bool" where
  "is_open_document (OpenDocumentReader r) = True"
| "is_open_document e = False"

text \<open>The end of a stream as the reader reports it: \<open>Finish\<close> and the two callbacks.\<close>

fun is_terminal :: "event \<Rightarrow> bool" where
  "is_terminal (Finish h st) = True"
| "is_terminal (ErrorCallback f m) = True"
| "is_terminal (CompletionCallback f) = True"
| "is_terminal e = False"

fun is_callback :: "event \<Rightarrow> bool" where
  "is_callback (ResponseCallback f j) = True"
| "is_callback (ErrorCallback f m) = True"
| "is_callback (CompletionCallback f) = True"
| "is_callback (JsCallback f j) = True"
| "is_callback e = False"

subsection \<open>The client\<close>

record StreamContext =
  stream :: stream_handle
  active :: bool
  session_id :: string

text \<open>
  The fields of the class. \<open>streams_opened\<close> is not a field: it counts the streams the
  stub has handed out and names the next one.
\<close>

record LegalGrpcWebClient =
  connected :: bool
  server_endpoint :: string
  response_callback :: "callback option"
  error_callback :: "callback option"
  completion_callback :: "callback option"
  active_streams :: "string \<rightharpoonup> StreamContext"
  streams_opened :: nat

text \<open>
  An operation gives its return value, the client afterwards and the events it caused.
\<close>

type_synonym 'a outcome = "'a \<times> LegalGrpcWebClient \<times> event list"

definition returned :: "'a outcome \<Rightarrow> 'a" where
  "returned r = fst r"

definition client_after :: "'a outcome \<Rightarrow> LegalGrpcWebClient" where
  "client_after r = fst (snd r)"

definition events_of :: "'a outcome \<Rightarrow> event list" where
  "events_of r = snd (snd r)"

text \<open>The constructor.\<close>

definition new_client :: "string \<Rightarrow> unit outcome" where
  "new_client endpoint =
     ((),
      \<lparr>connected = True, server_endpoint = endpoint, response_callback = None,
       error_callback = None, completion_callback = None, active_streams = Map.empty,
       streams_opened = 0\<rparr>,
      [LogInitialized (UTF8ToString endpoint)])"

definition setResponseCallback :: "LegalGrpcWebClient \<Rightarrow> callback \<Rightarrow> unit outcome" where
  "setResponseCallback c f = ((), c\<lparr>response_callback := Some f\<rparr>, [])"

definition setErrorCallback :: "LegalGrpcWebClient \<Rightarrow> callback \<Rightarrow> unit outcome" where
  "setErrorCallback c f = ((), c\<lparr>error_callback := Some f\<rparr>, [])"

definition setCompletionCallback :: "LegalGrpcWebClient \<Rightarrow> callback \<Rightarrow> unit outcome" where
  "setCompletionCallback c f = ((), c\<lparr>completion_callback := Some f\<rparr>, [])"

text \<open>
  \<open>startBidirectionalStream\<close>: no lookup and no test of what the stub returned. The
  assignment \<open>active_streams_[session_id] = ...\<close> replaces an entry that is there.
\<close>

definition startBidirectionalStream ::
  "LegalGrpcWebClient \<Rightarrow> string \<Rightarrow> bool \<Rightarrow> string outcome" where
  "startBidirectionalStream c sid established =
     (let h = streams_opened c;
          ctx = \<lparr>stream = h, active = True, session_id = sid\<rparr>
      in (sid,
          c\<lparr>active_streams := (active_streams c)(sid \<mapsto> ctx), streams_opened := Suc h\<rparr>,
          [OpenStream h established, SpawnReader sid, LogStarted (UTF8ToString sid)]))"

definition embedding_request :: "string \<Rightarrow> string \<Rightarrow> bool \<Rightarrow> CudaRequest" where
  "embedding_request sid text is_final =
     CudaRequest_new
       \<lparr>req_session_id := sid, operation_type := ''embed'', raw_text := text,
        is_final_chunk := is_final,
        cuda_options :=
          Some \<lparr>use_tensor_cores = True, batch_size = 1, enable_memory_pool = True\<rparr>\<rparr>"

text \<open>\<open>write_result\<close> is what \<open>stream->Write\<close> returns.\<close>

definition sendEmbeddingRequest ::
  "LegalGrpcWebClient \<Rightarrow> string \<Rightarrow> string \<Rightarrow> bool \<Rightarrow> bool \<Rightarrow> bool outcome" where
  "sendEmbeddingRequest c sid text is_final write_result =
     (case active_streams c sid of
        None \<Rightarrow> (False, c, [])
      | Some ctx \<Rightarrow>
          if \<not> active ctx then (False, c, [])
          else
            (write_result, c,
             Write (stream ctx) (embedding_request sid text is_final) #
             (if is_final then [WritesDone (stream ctx)] else [])))"

definition search_request :: "string \<Rightarrow> float32 list \<Rightarrow> bool \<Rightarrow> CudaRequest" where
  "search_request sid vec is_final =
     foldl (\<lambda>request val. request\<lparr>embedding_vector := embedding_vector request @ [val]\<rparr>)
       (CudaRequest_new
          \<lparr>req_session_id := sid, operation_type := ''search'', is_final_chunk := is_final\<rparr>)
       vec"

definition sendSearchRequest ::
  "LegalGrpcWebClient \<Rightarrow> string \<Rightarrow> float32 list \<Rightarrow> bool \<Rightarrow> bool \<Rightarrow> bool outcome" where
  "sendSearchRequest c sid vec is_final write_result =
     (case active_streams c sid of
        None \<Rightarrow> (False, c, [])
      | Some ctx \<Rightarrow>
          if \<not> active ctx then (False, c, [])
          else (write_result, c, [Write (stream ctx) (search_request sid vec is_final)]))"

text \<open>
  \<open>closeStream\<close>: \<open>finish_status\<close> is what \<open>stream->Finish\<close> returns. The entry is
  marked inactive and then erased, so the cleared flag is never seen in the registry.
\<close>

definition closeStream :: "LegalGrpcWebClient \<Rightarrow> string \<Rightarrow> Status \<Rightarrow> bool outcome" where
  "closeStream c sid finish_status =
     (case active_streams c sid of
        Some ctx \<Rightarrow>
          (ok finish_status,
           c\<lparr>active_streams := (active_streams c)(sid := None)\<rparr>,
           [WritesDone (stream ctx), Finish (stream ctx) finish_status,
            LogClosed (UTF8ToString sid)])
      | None \<Rightarrow> (False, c, []))"

definition isConnected :: "LegalGrpcWebClient \<Rightarrow> bool" where
  "isConnected c = connected c"

subsection \<open>One-shot jobs: the requests\<close>

definition document_request :: "string \<Rightarrow> string \<Rightarrow> string \<Rightarrow> DocumentRequest" where
  "document_request doc_id content doc_type =
     DocumentRequest_new
       \<lparr>document_id := doc_id, document_content := content, document_type := doc_type,
        flags :=
          Some (ProcessingFlags_new
            \<lparr>extract_entities := True, generate_summary := True, compute_embeddings := True,
             analyze_sentiment := True, detect_clauses := (doc_type = ''contract'')\<rparr>)\<rparr>"

definition search_job_request :: "string \<Rightarrow> string \<Rightarrow> int \<Rightarrow> SearchRequest" where
  "search_job_request q collection k =
     SearchRequest_new
       \<lparr>query := q, collection_name := collection, top_k := k, enable_reranking := True,
        has_filters := True\<rparr>"

definition similarity_request :: "string \<Rightarrow> string list \<Rightarrow> SimilarityRequest" where
  "similarity_request base ids =
     (foldl (\<lambda>request case_id.
               request\<lparr>compare_case_ids := compare_case_ids request @ [case_id]\<rparr>)
        (SimilarityRequest_new\<lparr>base_case_id := base\<rparr>) ids)
       \<lparr>requested_metrics :=
          Some (SimilarityMetrics_new
            \<lparr>factual_similarity := True, legal_precedent_similarity := True,
             outcome_similarity := True, procedural_similarity := True\<rparr>)\<rparr>"

text \<open>
  The one-shot jobs. Each builds its request, opens a reader on the stub with it, detaches
  a thread that owns the reader and the callback, and returns.
\<close>

definition processLegalDocument ::
  "LegalGrpcWebClient \<Rightarrow> string \<Rightarrow> string \<Rightarrow> string \<Rightarrow> callback \<Rightarrow> unit outcome" where
  "processLegalDocument c doc_id content doc_type progress_callback =
     ((), c,
      [OpenDocumentReader (document_request doc_id content doc_type),
       SpawnDocumentThread progress_callback])"

definition performSemanticSearch ::
  "LegalGrpcWebClient \<Rightarrow> string \<Rightarrow> string \<Rightarrow> int \<Rightarrow> callback \<Rightarrow> unit outcome" where
  "performSemanticSearch c q collection k results_callback =
     ((), c,
      [OpenSearchReader (search_job_request q collection k),
       SpawnSearchThread results_callback])"

definition analyzeCaseSimilarity ::
  "LegalGrpcWebClient \<Rightarrow> string \<Rightarrow> string list \<Rightarrow> callback \<Rightarrow> unit outcome" where
  "analyzeCaseSimilarity c base ids similarity_callback =
     ((), c,
      [OpenSimilarityReader (similarity_request base ids),
       SpawnSimilarityThread similarity_callback])"

subsection \<open>The read loops\<close>

text \<open>
  What the remote sends on one stream is a function \<open>remote\<close>: \<open>remote n\<close> is the
  outcome of the \<open>n\<close>-th \<open>Read\<close>, a message or \<open>None\<close> when \<open>Read\<close> returns false
  (end of stream or failure). A remote that never ends its stream keeps the loop running:
  the loops are partial functions and \<open>None\<close> is "does not return".
\<close>

type_synonym 'm remote = "nat \<Rightarrow> 'm option"

text \<open>The remote that sends the given messages and then ends the stream.\<close>

definition remote_of :: "'m list \<Rightarrow> 'm remote" where
  "remote_of msgs n = (if n < length msgs then Some (msgs ! n) else None)"

text \<open>
  While a reader thread is blocked in a call, the host can call the setters, which take no
  mutex; every other member function that touches the client waits for the mutex.
  \<open>while_reading h n\<close> are the setter calls made during the \<open>n\<close>-th \<open>Read\<close>,
  \<open>while_finishing\<close> those made during \<open>Finish\<close>, \<open>while_reporting\<close> those made after
  \<open>error_callback_\<close> was looked at and before \<open>completion_callback_\<close> is.
\<close>

datatype setter_call =
    ResponseSetter callback
  | ErrorSetter callback
  | CompletionSetter callback

record host_calls =
  while_reading :: "nat \<Rightarrow> setter_call list"
  while_finishing :: "setter_call list"
  while_reporting :: "setter_call list"

fun apply_setter :: "LegalGrpcWebClient \<Rightarrow> setter_call \<Rightarrow> LegalGrpcWebClient" where
  "apply_setter c (ResponseSetter f) = client_after (setResponseCallback c f)"
| "apply_setter c (ErrorSetter f) = client_after (setErrorCallback c f)"
| "apply_setter c (CompletionSetter f) = client_after (setCompletionCallback c f)"

definition apply_setters :: "LegalGrpcWebClient \<Rightarrow> setter_call list \<Rightarrow> LegalGrpcWebClient" where
  "apply_setters c calls = foldl apply_setter c calls"

text \<open>
  The loop of \<open>readStreamResponses\<close>:
  \<open>while (active && stream->Read(&response)) { if (response_callback_) ... }\<close>.
  The mutex is held, so the registry and the flag do not change while it runs; the field
  \<open>response_callback_\<close> is read anew for each message. The result is the client after
  the setter calls made meanwhile, and the events.
\<close>

partial_function (option) read_loop ::
  "LegalGrpcWebClient \<Rightarrow> stream_handle \<Rightarrow> bool \<Rightarrow> json remote \<Rightarrow> (nat \<Rightarrow> setter_call list)
     \<Rightarrow> nat \<Rightarrow> (LegalGrpcWebClient \<times> event list) option" where
  "read_loop c h act remote host i =
     (if \<not> act then Some (c, [])
      else
        case remote i of
          None \<Rightarrow> Some (apply_setters c (host i), [Read h None])
        | Some response \<Rightarrow>
            Option.bind (read_loop (apply_setters c (host i)) h act remote host (Suc i))
              (\<lambda>later. Some (fst later,
                 Read h (Some response) #
                 (case response_callback (apply_setters c (host i)) of
                    None \<Rightarrow> []
                  | Some f \<Rightarrow> [ResponseCallback f response]) @ snd later)))"

declare read_loop.simps [code]

text \<open>
  \<open>readStreamResponses\<close>, the body of the thread that \<open>startBidirectionalStream\<close>
  detaches. It looks the session up by its id when it gets the mutex.
\<close>

definition readStreamResponses ::
  "LegalGrpcWebClient \<Rightarrow> string \<Rightarrow> json remote \<Rightarrow> host_calls \<Rightarrow> Status \<Rightarrow> unit outcome option" where
  "readStreamResponses c sid remote host finish_status =
     (case active_streams c sid of
        None \<Rightarrow> Some ((), c, [])
      | Some ctx \<Rightarrow>
          Option.bind (read_loop c (stream ctx) (active ctx) remote (while_reading host) 0)
            (\<lambda>loop.
               let c1 = apply_setters (fst loop) (while_finishing host);
                   c2 = apply_setters c1 (while_reporting host)
               in Some ((), c2,
                    snd loop @ [Finish (stream ctx) finish_status] @
                    (case error_callback c1 of
                       None \<Rightarrow> []
                     | Some f \<Rightarrow>
                         if \<not> ok finish_status
                         then [ErrorCallback f (error_message finish_status)]
                         else []) @
                    (case completion_callback c2 of
                       None \<Rightarrow> []
                     | Some f \<Rightarrow> [CompletionCallback f]))))"

text \<open>
  The loop of the thread of a one-shot job:
  \<open>while (reader->Read(&response)) { json = toJson(response); EM_ASM(... JSON.parse ...) }\<close>.
  \<open>accepts\<close> says which texts the host's \<open>JSON.parse\<close> accepts. On a text it does not
  accept it throws: the callback is not called and the thread ends there. The flag of the
  result says whether the loop ended by \<open>Read\<close> returning false.
\<close>

partial_function (option) forward_responses ::
  "('m \<Rightarrow> string) \<Rightarrow> (string \<Rightarrow> bool) \<Rightarrow> callback \<Rightarrow> 'm remote \<Rightarrow> nat
     \<Rightarrow> (event list \<times> bool) option" where
  "forward_responses to_json accepts cb remote i =
     (case remote i of
        None \<Rightarrow> Some ([ReaderRead None], True)
      | Some response \<Rightarrow>
          if accepts (UTF8ToString (to_json response)) then
            Option.bind (forward_responses to_json accepts cb remote (Suc i))
              (\<lambda>later. Some (ReaderRead (Some (to_json response)) #
                               JsCallback cb (UTF8ToString (to_json response)) # fst later,
                             snd later))
          else Some ([ReaderRead (Some (to_json response))], False))"

declare forward_responses.simps [code]

text \<open>
  After the loop: \<open>reader->Finish()\<close> and a line on the console when the status is not
  ok. \<open>what\<close> is the text that line starts with.
\<close>

definition finish_reader :: "string \<Rightarrow> Status \<Rightarrow> event list" where
  "finish_reader what finish_status =
     ReaderFinish finish_status #
     (if \<not> ok finish_status
      then [ConsoleError (what @ UTF8ToString (error_message finish_status))]
      else [])"

text \<open>The body of the three detached lambdas, which differ in the helper and the text.\<close>

definition job_thread ::
  "('m \<Rightarrow> string) \<Rightarrow> string \<Rightarrow> callback \<Rightarrow> (string \<Rightarrow> bool) \<Rightarrow> 'm remote \<Rightarrow> Status
     \<Rightarrow> event list option" where
  "job_thread to_json what cb accepts remote finish_status =
     Option.bind (forward_responses to_json accepts cb remote 0)
       (\<lambda>loop. Some (if snd loop then fst loop @ finish_reader what finish_status
                      else fst loop))"

definition processLegalDocument_thread ::
  "callback \<Rightarrow> (string \<Rightarrow> bool) \<Rightarrow> DocumentResponse remote \<Rightarrow> Status \<Rightarrow> event list option" where
  "processLegalDocument_thread progress_callback =
     job_thread documentResponseToJson ''Document processing failed: '' progress_callback"

definition performSemanticSearch_thread ::
  "callback \<Rightarrow> (string \<Rightarrow> bool) \<Rightarrow> SearchResponse remote \<Rightarrow> Status \<Rightarrow> event list option" where
  "performSemanticSearch_thread results_callback =
     job_thread searchResponseToJson ''Semantic search failed: '' results_callback"

definition analyzeCaseSimilarity_thread ::
  "callback \<Rightarrow> (string \<Rightarrow> bool) \<Rightarrow> SimilarityResponse remote \<Rightarrow> Status \<Rightarrow> event list option" where
  "analyzeCaseSimilarity_thread similarity_callback =
     job_thread similarityResponseToJson ''Case similarity analysis failed: ''
       similarity_callback"

definition completions :: "event list \<Rightarrow> nat" where
  "completions evs = length (filter is_completion evs)"

subsection \<open>The callback set most recently\<close>

text \<open>
  The words of the claims about callbacks, on their own: the callback of one kind that was
  set most recently, given the one in place and the setter calls made since, in order.
\<close>

fun most_recent_response :: "callback option \<Rightarrow> setter_call list \<Rightarrow> callback option" where
  "most_recent_response cur [] = cur"
| "most_recent_response cur (ResponseSetter f # calls) = most_recent_response (Some f) calls"
| "most_recent_response cur (s # calls) = most_recent_response cur calls"

fun most_recent_error :: "callback option \<Rightarrow> setter_call list \<Rightarrow> callback option" where
  "most_recent_error cur [] = cur"
| "most_recent_error cur (ErrorSetter f # calls) = most_recent_error (Some f) calls"
| "most_recent_error cur (s # calls) = most_recent_error cur calls"

fun most_recent_completion :: "callback option \<Rightarrow> setter_call list \<Rightarrow> callback option" where
  "most_recent_completion cur [] = cur"
| "most_recent_completion cur (CompletionSetter f # calls) =
     most_recent_completion (Some f) calls"
| "most_recent_completion cur (s # calls) = most_recent_completion cur calls"

text \<open>The setter calls made during the first \<open>n\<close> reads of a reader.\<close>

definition calls_before :: "(nat \<Rightarrow> setter_call list) \<Rightarrow> nat \<Rightarrow> setter_call list" where
  "calls_before host n = concat (map host [0..<n])"

subsection \<open>Sequences of calls\<close>

text \<open>
  The calls a host can make, each with the answers the transport gives during it, and the
  runs of the detached threads: \<open>RunReader\<close> is a reader thread that gets the mutex and
  runs \<open>readStreamResponses\<close> to its end, with the setter calls the host makes meanwhile;
  the other three are the threads of the one-shot jobs.
\<close>

datatype call =
    SetResponseCallback callback
  | SetErrorCallback callback
  | SetCompletionCallback callback
  | StartBidirectionalStream string bool
  | SendEmbeddingRequest string string bool bool
  | SendSearchRequest string "float32 list" bool bool
  | ProcessLegalDocument string string string callback
  | PerformSemanticSearch string string int callback
  | AnalyzeCaseSimilarity string "string list" callback
  | CloseStream string Status
  | RunReader string "json remote" host_calls Status
  | RunDocumentThread callback "string \<Rightarrow> bool" "DocumentResponse remote" Status
  | RunSearchThread callback "string \<Rightarrow> bool" "SearchResponse remote" Status
  | RunSimilarityThread callback "string \<Rightarrow> bool" "SimilarityResponse remote" Status

text \<open>A detached thread that has not run yet, with what it captured.\<close>

datatype thread =
    ReaderThread string
  | DocumentThread callback
  | SearchThread callback
  | SimilarityThread callback

record world =
  client :: LegalGrpcWebClient
  threads :: "thread list"
  trace :: "event list"

definition new_world :: "string \<Rightarrow> world" where
  "new_world endpoint =
     \<lparr>client = client_after (new_client endpoint), threads = [],
      trace = events_of (new_client endpoint)\<rparr>"

definition commit :: "world \<Rightarrow> 'a outcome \<Rightarrow> world" where
  "commit w r = w\<lparr>client := client_after r, trace := trace w @ events_of r\<rparr>"

definition thread_done :: "world \<Rightarrow> thread \<Rightarrow> event list \<Rightarrow> world" where
  "thread_done w t evs = w\<lparr>threads := remove1 t (threads w), trace := trace w @ evs\<rparr>"

text \<open>
  One call. \<open>None\<close>: the call never returns, so there is no state after it and no later
  call gets the mutex. A thread that was not detached does not run: the world stays as it
  is.
\<close>

fun exec :: "world \<Rightarrow> call \<Rightarrow> world option" where
  "exec w (SetResponseCallback f) = Some (commit w (setResponseCallback (client w) f))"
| "exec w (SetErrorCallback f) = Some (commit w (setErrorCallback (client w) f))"
| "exec w (SetCompletionCallback f) = Some (commit w (setCompletionCallback (client w) f))"
| "exec w (StartBidirectionalStream sid e) =
     Some ((commit w (startBidirectionalStream (client w) sid e))
             \<lparr>threads := threads w @ [ReaderThread sid]\<rparr>)"
| "exec w (SendEmbeddingRequest sid text fin wr) =
     Some (commit w (sendEmbeddingRequest (client w) sid text fin wr))"
| "exec w (SendSearchRequest sid vec fin wr) =
     Some (commit w (sendSearchRequest (client w) sid vec fin wr))"
| "exec w (ProcessLegalDocument d content t f) =
     Some ((commit w (processLegalDocument (client w) d content t f))
             \<lparr>threads := threads w @ [DocumentThread f]\<rparr>)"
| "exec w (PerformSemanticSearch q coll k f) =
     Some ((commit w (performSemanticSearch (client w) q coll k f))
             \<lparr>threads := threads w @ [SearchThread f]\<rparr>)"
| "exec w (AnalyzeCaseSimilarity base ids f) =
     Some ((commit w (analyzeCaseSimilarity (client w) base ids f))
             \<lparr>threads := threads w @ [SimilarityThread f]\<rparr>)"
| "exec w (CloseStream sid st) = Some (commit w (closeStream (client w) sid st))"
| "exec w (RunReader sid remote host st) =
     (if ReaderThread sid \<in> set (threads w) then
        map_option (\<lambda>r. (commit w r)\<lparr>threads := remove1 (ReaderThread sid) (threads w)\<rparr>)
          (readStreamResponses (client w) sid remote host st)
      else Some w)"
| "exec w (RunDocumentThread f accepts remote st) =
     (if DocumentThread f \<in> set (threads w) then
        map_option (thread_done w (DocumentThread f))
          (processLegalDocument_thread f accepts remote st)
      else Some w)"
| "exec w (RunSearchThread f accepts remote st) =
     (if SearchThread f \<in> set (threads w) then
        map_option (thread_done w (SearchThread f))
          (performSemanticSearch_thread f accepts remote st)
      else Some w)"
| "exec w (RunSimilarityThread f accepts remote st) =
     (if SimilarityThread f \<in> set (threads w) then
        map_option (thread_done w (SimilarityThread f))
          (analyzeCaseSimilarity_thread f accepts remote st)
      else Some w)"

fun run :: "world \<Rightarrow> call list \<Rightarrow> world option" where
  "run w [] = Some w"
| "run w (x # xs) = Option.bind (exec w x) (\<lambda>w'. run w' xs)"

subsection \<open>Concrete clients and hosts\<close>

text \<open>A new client whose three callbacks are set.\<close>

definition client_cb :: LegalGrpcWebClient where
  "client_cb =
     client_after (setCompletionCallback
       (client_after (setErrorCallback
          (client_after (setResponseCallback
             (client_after (new_client ''https://legal.example'')) 1)) 2)) 3)"

text \<open>The same after \<open>startBidirectionalStream("s1")\<close>.\<close>

definition client_s1 :: LegalGrpcWebClient where
  "client_s1 = client_after (startBidirectionalStream client_cb ''s1'' True)"

text \<open>A host that calls no setter while a reader runs.\<close>

definition no_calls :: host_calls where
  "no_calls = \<lparr>while_reading = (\<lambda>n. []), while_finishing = [], while_reporting = []\<rparr>"

text \<open>A host that sets the response callback to 11 during the second \<open>Read\<close>.\<close>

definition sets_11_during_second_read :: host_calls where
  "sets_11_during_second_read =
     \<lparr>while_reading = (\<lambda>n. if n = 1 then [ResponseSetter 11] else []),
      while_finishing = [], while_reporting = []\<rparr>"

text \<open>A remote that sends a message on every \<open>Read\<close>.\<close>

definition never_ends :: "json remote" where
  "never_ends n = Some ''{}''"

text \<open>
  Two document responses: an id of letters and digits, and an id that holds a double
  quote, for which the helper renders \<open>{"document_id":"a"b"}\<close>.
\<close>

definition response_doc1 :: DocumentResponse where
  "response_doc1 = \<lparr>response_document_id = ''doc1''\<rparr>"

definition response_quote :: DocumentResponse where
  "response_quote = \<lparr>response_document_id = ''a'' @ [double_quote] @ ''b''\<rparr>"

text \<open>
  What \<open>JSON.parse\<close> does with the texts of these two: it accepts the first and throws
  on the second.
\<close>

definition accepts_doc1 :: "string \<Rightarrow> bool" where
  "accepts_doc1 text = (text = documentResponseToJson response_doc1)"

section \<open>Properties\<close>

subsection \<open>Auxiliary facts\<close>

lemma outcome_simps [simp]:
  "returned (a, c, evs) = a" "client_after (a, c, evs) = c" "events_of (a, c, evs) = evs"
  by (simp_all add: returned_def client_after_def events_of_def)

lemma apply_setter_fields [simp]:
  "connected (apply_setter c s) = connected c"
  "active_streams (apply_setter c s) = active_streams c"
  "streams_opened (apply_setter c s) = streams_opened c"
  by (cases s; simp add: setResponseCallback_def setErrorCallback_def setCompletionCallback_def)+

lemma apply_setters_Nil [simp]: "apply_setters c [] = c"
  by (simp add: apply_setters_def)

lemma apply_setters_Cons [simp]:
  "apply_setters c (s # calls) = apply_setters (apply_setter c s) calls"
  by (simp add: apply_setters_def)

lemma apply_setters_append:
  "apply_setters c (xs @ ys) = apply_setters (apply_setters c xs) ys"
  by (simp add: apply_setters_def)

lemma apply_setters_fields [simp]:
  "connected (apply_setters c calls) = connected c"
  "active_streams (apply_setters c calls) = active_streams c"
  "streams_opened (apply_setters c calls) = streams_opened c"
  by (induction calls arbitrary: c; simp)+

lemma response_callback_apply_setters:
  "response_callback (apply_setters c calls) = most_recent_response (response_callback c) calls"
proof (induction calls arbitrary: c)
  case Nil
  then show ?case by simp
next
  case (Cons s calls)
  then show ?case
    by (cases s)
       (simp_all add: setResponseCallback_def setErrorCallback_def setCompletionCallback_def)
qed

lemma error_callback_apply_setters:
  "error_callback (apply_setters c calls) = most_recent_error (error_callback c) calls"
proof (induction calls arbitrary: c)
  case Nil
  then show ?case by simp
next
  case (Cons s calls)
  then show ?case
    by (cases s)
       (simp_all add: setResponseCallback_def setErrorCallback_def setCompletionCallback_def)
qed

lemma completion_callback_apply_setters:
  "completion_callback (apply_setters c calls)
     = most_recent_completion (completion_callback c) calls"
proof (induction calls arbitrary: c)
  case Nil
  then show ?case by simp
next
  case (Cons s calls)
  then show ?case
    by (cases s)
       (simp_all add: setResponseCallback_def setErrorCallback_def setCompletionCallback_def)
qed

lemma read_loop_returns:
  "remote n = None \<Longrightarrow> i \<le> n \<Longrightarrow> \<exists>r. read_loop c h act remote host i = Some r"
proof (induction "n - i" arbitrary: i c)
  case 0
  then have "i = n" by simp
  with 0 show ?case by (subst read_loop.simps) simp
next
  case (Suc d)
  then have "d = n - Suc i" "Suc i \<le> n" by simp_all
  from Suc.hyps(1)[OF this(1) Suc.prems(1) this(2)]
  obtain r where "read_loop (apply_setters c (host i)) h act remote host (Suc i) = Some r"
    by blast
  then show ?case by (subst read_loop.simps) (auto split: option.split)
qed

lemma read_loop_fields:
  assumes "read_loop c h act remote host i = Some r"
  shows "connected (fst r) = connected c \<and> active_streams (fst r) = active_streams c
     \<and> streams_opened (fst r) = streams_opened c"
  using assms
  by (rule read_loop.raw_induct
        [where P = "\<lambda>c h act remote host i r.
           connected (fst r) = connected c \<and> active_streams (fst r) = active_streams c
           \<and> streams_opened (fst r) = streams_opened c", rotated])
     (auto split: if_splits option.splits bind_splits)



lemma read_loop_remote_of:
  "i \<le> length msgs \<Longrightarrow>
   read_loop c h True (remote_of msgs) host i =
     Some (apply_setters c (concat (map host [i..<Suc (length msgs)])),
           concat (map (\<lambda>k. Read h (Some (msgs ! k)) #
                     (case response_callback (apply_setters c (concat (map host [i..<Suc k]))) of
                        None \<Rightarrow> []
                      | Some f \<Rightarrow> [ResponseCallback f (msgs ! k)]))
                   [i..<length msgs])
           @ [Read h None])"
proof (induction "length msgs - i" arbitrary: i c)
  case 0
  then have "i = length msgs" by simp
  then show ?case by (subst read_loop.simps) (simp add: remote_of_def)
next
  case (Suc d)
  then have lt: "i < length msgs" and d: "d = length msgs - Suc i" by simp_all
  from lt have le: "Suc i \<le> length msgs" by simp
  have setters: "apply_setters (apply_setters c (host i)) (concat (map host [Suc i..<Suc k]))
                 = apply_setters c (concat (map host [i..<Suc k]))" if "i \<le> k" for k
    using that by (simp add: upt_conv_Cons [of i "Suc k"] apply_setters_append del: upt_Suc)
  have first: "[i..<Suc i] = [i]" by simp
  have "map (\<lambda>k. Read h (Some (msgs ! k)) #
              (case response_callback
                      (apply_setters (apply_setters c (host i)) (concat (map host [Suc i..<Suc k]))) of
                 None \<Rightarrow> []
               | Some f \<Rightarrow> [ResponseCallback f (msgs ! k)]))
          [Suc i..<length msgs]
      = map (\<lambda>k. Read h (Some (msgs ! k)) #
              (case response_callback (apply_setters c (concat (map host [i..<Suc k]))) of
                 None \<Rightarrow> []
               | Some f \<Rightarrow> [ResponseCallback f (msgs ! k)]))
          [Suc i..<length msgs]"
    by (rule map_cong) (simp_all add: setters del: upt_Suc)
  with Suc.hyps(1)[OF d le, of "apply_setters c (host i)"] lt setters[of "length msgs"]
  show ?case
    by (subst read_loop.simps)
       (simp add: remote_of_def upt_conv_Cons [of i "length msgs"] first
          del: upt_Suc)
qed

lemma forward_responses_remote_of:
  "i \<le> length msgs \<Longrightarrow>
   forward_responses to_json accepts cb (remote_of msgs) i =
     Some (concat (map (\<lambda>m. [ReaderRead (Some (to_json m)),
                              JsCallback cb (UTF8ToString (to_json m))])
                    (takeWhile (\<lambda>m. accepts (UTF8ToString (to_json m))) (drop i msgs)))
           @ (case dropWhile (\<lambda>m. accepts (UTF8ToString (to_json m))) (drop i msgs) of
                [] \<Rightarrow> [ReaderRead None]
              | m # ms \<Rightarrow> [ReaderRead (Some (to_json m))]),
           dropWhile (\<lambda>m. accepts (UTF8ToString (to_json m))) (drop i msgs) = [])"
proof (induction "length msgs - i" arbitrary: i)
  case 0
  then show ?case by (subst forward_responses.simps) (simp add: remote_of_def)
next
  case (Suc d)
  then have lt: "i < length msgs" and d: "d = length msgs - Suc i" by simp_all
  from lt have le: "Suc i \<le> length msgs" by simp
  from Suc.hyps(1)[OF d le] lt show ?case
    by (subst forward_responses.simps)
       (simp add: remote_of_def Cons_nth_drop_Suc [symmetric])
qed

lemma job_thread_remote_of:
  "job_thread to_json what cb accepts (remote_of msgs) st =
     Some (concat (map (\<lambda>m. [ReaderRead (Some (to_json m)),
                              JsCallback cb (UTF8ToString (to_json m))])
                    (takeWhile (\<lambda>m. accepts (UTF8ToString (to_json m))) msgs))
           @ (case dropWhile (\<lambda>m. accepts (UTF8ToString (to_json m))) msgs of
                [] \<Rightarrow> ReaderRead None # finish_reader what st
              | m # ms \<Rightarrow> [ReaderRead (Some (to_json m))]))"
  using forward_responses_remote_of[of 0 msgs to_json accepts cb]
  by (cases "dropWhile (\<lambda>m. accepts (UTF8ToString (to_json m))) msgs")
     (simp_all add: job_thread_def del: dropWhile_eq_Nil_conv)

lemma forward_responses_no_completion:
  assumes "forward_responses to_json accepts cb remote i = Some r"
  shows "filter is_completion (fst r) = []"
  using assms
  by (rule forward_responses.raw_induct
        [where P = "\<lambda>to_json accepts cb remote i r. filter is_completion (fst r) = []", rotated])
     (auto split: if_splits option.splits bind_splits)

lemma job_thread_no_completion:
  assumes "job_thread to_json what cb accepts remote st = Some evs"
  shows "completions evs = 0"
  using assms forward_responses_no_completion[of to_json accepts cb remote 0]
  by (auto simp: job_thread_def completions_def finish_reader_def split: bind_splits if_splits)

lemma readStreamResponses_fields:
  assumes "readStreamResponses c sid remote host st = Some r"
  shows "connected (client_after r) = connected c
     \<and> active_streams (client_after r) = active_streams c
     \<and> streams_opened (client_after r) = streams_opened c"
proof (cases "active_streams c sid")
  case None
  with assms show ?thesis by (auto simp: readStreamResponses_def)
next
  case (Some ctx)
  with assms obtain loop
    where loop: "read_loop c (stream ctx) (active ctx) remote (while_reading host) 0 = Some loop"
      and r: "client_after r
              = apply_setters (apply_setters (fst loop) (while_finishing host))
                  (while_reporting host)"
    by (auto simp: readStreamResponses_def Let_def split: bind_splits)
  from read_loop_fields[OF loop] r show ?thesis by simp
qed

lemmas op_defs =
  setResponseCallback_def setErrorCallback_def setCompletionCallback_def
  startBidirectionalStream_def sendEmbeddingRequest_def sendSearchRequest_def closeStream_def
  new_client_def

lemmas job_defs = processLegalDocument_def performSemanticSearch_def analyzeCaseSimilarity_def

lemmas example_defs = client_cb_def client_s1_def

lemma UTF8ToString_examples [simp]:
  "UTF8ToString ''s1'' = ''s1''"
  "UTF8ToString ''https://legal.example'' = ''https://legal.example''"
  "UTF8ToString ''unavailable'' = ''unavailable''"
  by (simp_all add: UTF8ToString_def)

lemma exec_connected:
  "exec w x = Some w' \<Longrightarrow> connected (client w') = connected (client w)"
  by (cases x)
     (auto simp: commit_def thread_done_def op_defs job_defs Let_def
        dest: readStreamResponses_fields
        split: option.splits if_splits)

lemma run_connected:
  "run w xs = Some w' \<Longrightarrow> connected (client w') = connected (client w)"
proof (induction xs arbitrary: w)
  case Nil
  then show ?case by simp
next
  case (Cons x xs)
  then obtain w1 where 1: "exec w x = Some w1" and 2: "run w1 xs = Some w'"
    by (auto split: bind_splits)
  from Cons.IH[OF 2] exec_connected[OF 1] show ?case by simp
qed

lemma exec_registry:
  assumes "exec w x = Some w'"
    and "\<forall>sid ctx. active_streams (client w) sid = Some ctx
           \<longrightarrow> stream ctx < streams_opened (client w) \<and> active ctx"
  shows "\<forall>sid ctx. active_streams (client w') sid = Some ctx
           \<longrightarrow> stream ctx < streams_opened (client w') \<and> active ctx"
  using assms
  by (cases x;
      fastforce simp: commit_def thread_done_def op_defs job_defs Let_def less_Suc_eq
        dest: readStreamResponses_fields
        split: option.splits if_splits)

lemma run_registry:
  assumes "run w xs = Some w'"
    and "\<forall>sid ctx. active_streams (client w) sid = Some ctx
           \<longrightarrow> stream ctx < streams_opened (client w) \<and> active ctx"
  shows "\<forall>sid ctx. active_streams (client w') sid = Some ctx
           \<longrightarrow> stream ctx < streams_opened (client w') \<and> active ctx"
  using assms
proof (induction xs arbitrary: w)
  case Nil
  then show ?case by simp
next
  case (Cons x xs)
  then obtain w1 where 1: "exec w x = Some w1" and 2: "run w1 xs = Some w'"
    by (auto split: bind_splits)
  from Cons.IH[OF 2 exec_registry[OF 1 Cons.prems(2)]] show ?case .
qed

lemma reachable_registry:
  assumes "run (new_world endpoint) calls = Some w"
    and "active_streams (client w) sid = Some ctx"
  shows "stream ctx < streams_opened (client w)" and "active ctx"
proof -
  have "\<forall>sid ctx. active_streams (client (new_world endpoint)) sid = Some ctx
          \<longrightarrow> stream ctx < streams_opened (client (new_world endpoint)) \<and> active ctx"
    by (simp add: new_world_def new_client_def)
  from run_registry[OF assms(1) this] assms(2)
  show "stream ctx < streams_opened (client w)" and "active ctx" by blast+
qed

lemma send_cleared_flag_fails:
  "active_streams c sid = Some ctx \<Longrightarrow> \<not> active ctx \<Longrightarrow>
   sendEmbeddingRequest c sid text fin wr = (False, c, [])
   \<and> sendSearchRequest c sid vec fin wr = (False, c, [])"
  by (simp add: sendEmbeddingRequest_def sendSearchRequest_def)


lemma most_recent_response_append:
  "most_recent_response cur (xs @ ys) = most_recent_response (most_recent_response cur xs) ys"
  by (induction cur xs rule: most_recent_response.induct) simp_all

lemma most_recent_error_append:
  "most_recent_error cur (xs @ ys) = most_recent_error (most_recent_error cur xs) ys"
  by (induction cur xs rule: most_recent_error.induct) simp_all

lemma most_recent_completion_append:
  "most_recent_completion cur (xs @ ys)
     = most_recent_completion (most_recent_completion cur xs) ys"
  by (induction cur xs rule: most_recent_completion.induct) simp_all

lemma readStreamResponses_remote_of:
  assumes "active_streams c sid = Some ctx" and "active ctx"
  shows "readStreamResponses c sid (remote_of msgs) host st =
     Some ((),
       apply_setters c
         (calls_before (while_reading host) (Suc (length msgs)) @ while_finishing host
          @ while_reporting host),
       concat (map (\<lambda>i. Read (stream ctx) (Some (msgs ! i)) #
                 (case most_recent_response (response_callback c)
                         (calls_before (while_reading host) (Suc i)) of
                    None \<Rightarrow> []
                  | Some f \<Rightarrow> [ResponseCallback f (msgs ! i)]))
               [0..<length msgs])
       @ [Read (stream ctx) None, Finish (stream ctx) st]
       @ (case most_recent_error (error_callback c)
                 (calls_before (while_reading host) (Suc (length msgs)) @ while_finishing host) of
            None \<Rightarrow> []
          | Some f \<Rightarrow> if ok st then [] else [ErrorCallback f (error_message st)])
       @ (case most_recent_completion (completion_callback c)
                 (calls_before (while_reading host) (Suc (length msgs)) @ while_finishing host
                  @ while_reporting host) of
            None \<Rightarrow> []
          | Some f \<Rightarrow> [CompletionCallback f]))"
proof -
  have loop: "read_loop c (stream ctx) True (remote_of msgs) (while_reading host) 0 =
     Some (apply_setters c (calls_before (while_reading host) (Suc (length msgs))),
           concat (map (\<lambda>i. Read (stream ctx) (Some (msgs ! i)) #
                     (case most_recent_response (response_callback c)
                             (calls_before (while_reading host) (Suc i)) of
                        None \<Rightarrow> []
                      | Some f \<Rightarrow> [ResponseCallback f (msgs ! i)]))
                   [0..<length msgs])
           @ [Read (stream ctx) None])"
    using read_loop_remote_of[of 0 msgs c "stream ctx" "while_reading host"]
    by (simp add: calls_before_def response_callback_apply_setters del: upt_Suc)
  have err: "(case error_callback c1 of
                None \<Rightarrow> []
              | Some f \<Rightarrow> if \<not> ok st then [ErrorCallback f (error_message st)] else [])
           = (case error_callback c1 of
                None \<Rightarrow> []
              | Some f \<Rightarrow> if ok st then [] else [ErrorCallback f (error_message st)])" for c1
    by (simp split: option.split)
  from assms loop show ?thesis
    by (simp add: readStreamResponses_def Let_def err apply_setters_append
          error_callback_apply_setters completion_callback_apply_setters
          most_recent_error_append most_recent_completion_append del: upt_Suc)
qed

lemma reading_not_terminal:
  "filter is_terminal
     (concat (map (\<lambda>i. Read h (Some (g i)) #
                (case F i of None \<Rightarrow> [] | Some f \<Rightarrow> [ResponseCallback f (g i)])) xs)) = []"
  by (induction xs) (auto split: option.split)

lemma reading_not_completion:
  "filter is_completion
     (concat (map (\<lambda>i. Read h (Some (g i)) #
                (case F i of None \<Rightarrow> [] | Some f \<Rightarrow> [ResponseCallback f (g i)])) xs)) = []"
  by (induction xs) (auto split: option.split)

lemmas thread_defs =
  processLegalDocument_thread_def performSemanticSearch_thread_def
  analyzeCaseSimilarity_thread_def

lemma document_text_examples:
  "UTF8ToString (documentResponseToJson response_doc1) = documentResponseToJson response_doc1"
  "UTF8ToString (documentResponseToJson response_quote) = documentResponseToJson response_quote"
  "accepts_doc1 (documentResponseToJson response_doc1)"
  "\<not> accepts_doc1 (documentResponseToJson response_quote)"
  by (simp_all add: UTF8ToString_def documentResponseToJson_def response_doc1_def
        response_quote_def double_quote_def accepts_doc1_def)

subsection \<open>The registry\<close>

text \<open>
  C1, as amended. \<open>startBidirectionalStream\<close> does no lookup and has no failing result:
  in every state the client can reach, a call for an id that is registered returns the id,
  opens one more stream and puts its handle in the place of the registered one, from which
  it differs. The registry keeps the same ids, one handle for each.
\<close>

theorem start_replaces_registered:
  assumes "run (new_world endpoint) calls = Some w"
    and "active_streams (client w) sid = Some old"
  shows "returned (startBidirectionalStream (client w) sid e) = sid
    \<and> filter is_open (events_of (startBidirectionalStream (client w) sid e))
        = [OpenStream (streams_opened (client w)) e]
    \<and> active_streams (client_after (startBidirectionalStream (client w) sid e)) sid
        = Some \<lparr>stream = streams_opened (client w), active = True, session_id = sid\<rparr>
    \<and> stream old \<noteq> streams_opened (client w)
    \<and> dom (active_streams (client_after (startBidirectionalStream (client w) sid e)))
        = dom (active_streams (client w))"
  using reachable_registry(1)[OF assms] assms(2)
  by (auto simp: startBidirectionalStream_def Let_def)

theorem start_replaces_registered_witness:
  "\<exists>w old. run (new_world ''https://legal.example'') [StartBidirectionalStream ''s1'' True] = Some w
     \<and> active_streams (client w) ''s1'' = Some old
     \<and> stream old = 0
     \<and> returned (startBidirectionalStream (client w) ''s1'' True) = ''s1''
     \<and> filter is_open (events_of (startBidirectionalStream (client w) ''s1'' True))
        = [OpenStream 1 True]
     \<and> active_streams (client_after (startBidirectionalStream (client w) ''s1'' True)) ''s1''
        = Some \<lparr>stream = 1, active = True, session_id = ''s1''\<rparr>"
proof -
  obtain w where w: "run (new_world ''https://legal.example'') [StartBidirectionalStream ''s1'' True] = Some w"
    by simp
  then have c: "active_streams (client w) ''s1'' = Some \<lparr>stream = 0, active = True, session_id = ''s1''\<rparr>"
      "streams_opened (client w) = 1"
    by (auto simp: new_world_def commit_def op_defs Let_def)
  from start_replaces_registered[OF w c(1), of True] c show ?thesis
    using w by simp
qed

text \<open>
  The claim as it was stated fails on a client with an active session \<open>s1\<close>: a second
  \<open>startBidirectionalStream("s1")\<close> returns \<open>s1\<close> and opens stream 1.
\<close>

theorem start_while_active_counterexample:
  "active_streams client_s1 ''s1'' = Some \<lparr>stream = 0, active = True, session_id = ''s1''\<rparr>
   \<and> returned (startBidirectionalStream client_s1 ''s1'' True) = ''s1''
   \<and> events_of (startBidirectionalStream client_s1 ''s1'' True)
       = [OpenStream 1 True, SpawnReader ''s1'', LogStarted ''s1'']
   \<and> active_streams (client_after (startBidirectionalStream client_s1 ''s1'' True)) ''s1''
       = Some \<lparr>stream = 1, active = True, session_id = ''s1''\<rparr>"
  by (simp add: example_defs op_defs Let_def)

text \<open>
  C5, as amended. \<open>startBidirectionalStream\<close> does not look at what the stub gives
  back: whether the remote stream got established or not, it opens one stream, detaches
  one reader thread, logs the start, registers the session as active under its id with the
  new stream and returns the id, and the client afterwards is the same in both cases.
\<close>

theorem start_ignores_opening:
  "returned (startBidirectionalStream c sid established) = sid
   \<and> events_of (startBidirectionalStream c sid established)
       = [OpenStream (streams_opened c) established, SpawnReader sid,
          LogStarted (UTF8ToString sid)]
   \<and> active_streams (client_after (startBidirectionalStream c sid established)) sid
       = Some \<lparr>stream = streams_opened c, active = True, session_id = sid\<rparr>
   \<and> client_after (startBidirectionalStream c sid False)
       = client_after (startBidirectionalStream c sid True)"
  by (simp add: startBidirectionalStream_def Let_def)

text \<open>
  The claim as it was stated fails when the opening fails for the first session of a
  client: the id comes back and the session is registered.
\<close>

theorem start_failed_opening_counterexample:
  "active_streams client_cb ''s1'' = None
   \<and> returned (startBidirectionalStream client_cb ''s1'' False) = ''s1''
   \<and> events_of (startBidirectionalStream client_cb ''s1'' False)
       = [OpenStream 0 False, SpawnReader ''s1'', LogStarted ''s1'']
   \<and> active_streams (client_after (startBidirectionalStream client_cb ''s1'' False)) ''s1''
       = Some \<lparr>stream = 0, active = True, session_id = ''s1''\<rparr>"
  by (simp add: example_defs op_defs Let_def)

text \<open>
  C7. \<open>closeStream\<close> on an id that is not registered returns false, changes nothing and
  calls nothing; a second \<open>closeStream\<close> on the same id does exactly that, whatever the
  first one did.
\<close>

theorem closeStream_absent_or_twice:
  "(active_streams c sid = None \<longrightarrow> closeStream c sid st = (False, c, []))
   \<and> closeStream (client_after (closeStream c sid st1)) sid st2
       = (False, client_after (closeStream c sid st1), [])"
  by (simp add: closeStream_def split: option.split)

theorem closeStream_absent_or_twice_witness:
  "active_streams client_s1 ''s2'' = None
   \<and> closeStream client_s1 ''s2'' \<lparr>ok = True, error_message = []\<rparr> = (False, client_s1, [])
   \<and> returned (closeStream client_s1 ''s1'' \<lparr>ok = True, error_message = []\<rparr>) = True
   \<and> closeStream (client_after (closeStream client_s1 ''s1'' \<lparr>ok = True, error_message = []\<rparr>))
        ''s1'' \<lparr>ok = True, error_message = []\<rparr>
       = (False, client_after (closeStream client_s1 ''s1'' \<lparr>ok = True, error_message = []\<rparr>), [])"
proof -
  have a: "active_streams client_s1 ''s2'' = None"
    by (simp add: example_defs op_defs Let_def)
  have b: "returned (closeStream client_s1 ''s1'' \<lparr>ok = True, error_message = []\<rparr>) = True"
    by (simp add: example_defs op_defs Let_def)
  from closeStream_absent_or_twice[of client_s1 "''s2''" "\<lparr>ok = True, error_message = []\<rparr>"
      "\<lparr>ok = True, error_message = []\<rparr>" "\<lparr>ok = True, error_message = []\<rparr>"]
    closeStream_absent_or_twice[of client_s1 "''s1''" "\<lparr>ok = True, error_message = []\<rparr>"
      "\<lparr>ok = True, error_message = []\<rparr>" "\<lparr>ok = True, error_message = []\<rparr>"]
    a b
  show ?thesis by simp
qed

subsection \<open>Sending\<close>




text \<open>
  C2, as amended. A send with \<open>is_final = true\<close> leaves the client as it was: the session
  stays registered and active. Every later send on it, of either kind, is written to the
  transport and returns what \<open>Write\<close> returned; the client rejects nothing itself.
\<close>

theorem send_after_final_reaches_transport:
  assumes "active_streams c sid = Some ctx" and "active ctx"
  shows "sendEmbeddingRequest (client_after (sendEmbeddingRequest c sid text True wr)) sid text' fin wr'
       = (wr', c, Write (stream ctx) (embedding_request sid text' fin)
                  # (if fin then [WritesDone (stream ctx)] else []))
    \<and> sendSearchRequest (client_after (sendEmbeddingRequest c sid text True wr)) sid vec' fin wr'
       = (wr', c, [Write (stream ctx) (search_request sid vec' fin)])
    \<and> sendEmbeddingRequest (client_after (sendSearchRequest c sid vec True wr)) sid text' fin wr'
       = (wr', c, Write (stream ctx) (embedding_request sid text' fin)
                  # (if fin then [WritesDone (stream ctx)] else []))
    \<and> sendSearchRequest (client_after (sendSearchRequest c sid vec True wr)) sid vec' fin wr'
       = (wr', c, [Write (stream ctx) (search_request sid vec' fin)])"
  using assms by (simp add: sendEmbeddingRequest_def sendSearchRequest_def)

theorem send_after_final_reaches_transport_witness:
  "active_streams client_s1 ''s1'' = Some \<lparr>stream = 0, active = True, session_id = ''s1''\<rparr>
   \<and> sendEmbeddingRequest (client_after (sendEmbeddingRequest client_s1 ''s1'' ''hello'' True True))
        ''s1'' ''world'' False False
       = (False, client_s1, [Write 0 (embedding_request ''s1'' ''world'' False)])
   \<and> sendSearchRequest (client_after (sendSearchRequest client_s1 ''s1'' [1, 2] True True))
        ''s1'' [3] True True
       = (True, client_s1, [Write 0 (search_request ''s1'' [3] True)])"
proof -
  have a: "active_streams client_s1 ''s1'' = Some \<lparr>stream = 0, active = True, session_id = ''s1''\<rparr>"
    by (simp add: example_defs op_defs Let_def)
  have b: "active \<lparr>stream = 0, active = True, session_id = ''s1''\<rparr>" by simp
  from send_after_final_reaches_transport[OF a b, of "''hello''" True "''world''" False False "[3]" "[1, 2]"]
    send_after_final_reaches_transport[OF a b, of "''hello''" True "''world''" True True "[3]" "[1, 2]"]
    a
  show ?thesis by simp
qed

text \<open>
  The claim as it was stated fails on session \<open>s1\<close>: after the final chunk \<open>hello\<close> the
  chunk \<open>world\<close> is written to stream 0, and the send returns true when \<open>Write\<close> does.
\<close>

theorem send_after_final_counterexample:
  "active_streams client_s1 ''s1'' = Some \<lparr>stream = 0, active = True, session_id = ''s1''\<rparr>
   \<and> events_of (sendEmbeddingRequest client_s1 ''s1'' ''hello'' True True)
       = [Write 0 (embedding_request ''s1'' ''hello'' True), WritesDone 0]
   \<and> returned (sendEmbeddingRequest
        (client_after (sendEmbeddingRequest client_s1 ''s1'' ''hello'' True True))
        ''s1'' ''world'' False True) = True
   \<and> filter is_write (events_of (sendEmbeddingRequest
        (client_after (sendEmbeddingRequest client_s1 ''s1'' ''hello'' True True))
        ''s1'' ''world'' False True))
       = [Write 0 (embedding_request ''s1'' ''world'' False)]
   \<and> filter is_write (events_of (sendEmbeddingRequest
        (client_after (sendEmbeddingRequest client_s1 ''s1'' ''hello'' True True))
        ''s1'' ''world'' False False))
       = [Write 0 (embedding_request ''s1'' ''world'' False)]"
  by (simp add: example_defs op_defs Let_def)

text \<open>
  C4. \<open>sendSearchRequest\<close> with \<open>is_final = true\<close> on the active session \<open>s1\<close> marks the
  request as the final chunk and writes it, and never calls \<open>WritesDone\<close>;
  \<open>sendEmbeddingRequest\<close> in the same state does call it.
\<close>

theorem sendSearchRequest_final_no_half_close:
  "sendSearchRequest client_s1 ''s1'' [1, 2] True True
     = (True, client_s1, [Write 0 (search_request ''s1'' [1, 2] True)])
   \<and> is_final_chunk (search_request ''s1'' [1, 2] True)
   \<and> filter is_writes_done (events_of (sendSearchRequest client_s1 ''s1'' [1, 2] True True)) = []
   \<and> filter is_writes_done (events_of (sendEmbeddingRequest client_s1 ''s1'' ''hello'' True True))
     = [WritesDone 0]"
  by (simp add: example_defs op_defs Let_def search_request_def CudaRequest_new_def)

lemma sendSearchRequest_never_half_closes:
  "filter is_writes_done (events_of (sendSearchRequest c sid vec fin wr)) = []"
  by (simp add: sendSearchRequest_def split: option.split)

lemma sendEmbeddingRequest_final_half_closes:
  "active_streams c sid = Some ctx \<Longrightarrow> active ctx \<Longrightarrow>
   events_of (sendEmbeddingRequest c sid text True wr)
     = [Write (stream ctx) (embedding_request sid text True), WritesDone (stream ctx)]"
  by (simp add: sendEmbeddingRequest_def)

subsection \<open>Callbacks\<close>

text \<open>
  C3, as amended.
  \<^item> A reader thread whose session is registered, on a remote that sends finitely many
    messages and ends the stream, returns. After its reads it calls \<open>Finish\<close> once, then
    the error callback in place at that moment when the status is not ok, then, last, the
    completion callback in place at that moment: once when one is set, never when none is.
  \<^item> A reader thread whose session is not registered (closed before the reader got the
    mutex) does nothing at all.
  \<^item> \<open>closeStream\<close> calls no callback.
  \<^item> The thread of a one-shot job, on such a remote, calls the job's own callback for each
    message in order up to the first text that \<open>JSON.parse\<close> does not accept. If there is
    none it calls \<open>Finish\<close> and writes a line to the console exactly when the status is
    not ok; otherwise it ends at that text, with no callback for it, no \<open>Finish\<close> and no
    line. On no remote does it call the completion callback.
\<close>

theorem completion_callback_count:
  "(active_streams c sid = Some ctx \<and> active ctx \<longrightarrow>
      (\<exists>r pre.
         readStreamResponses c sid (remote_of msgs) host st = Some r
         \<and> events_of r
             = pre @ [Finish (stream ctx) st]
               @ (case most_recent_error (error_callback c)
                         (calls_before (while_reading host) (Suc (length msgs))
                          @ while_finishing host) of
                    None \<Rightarrow> []
                  | Some f \<Rightarrow> if ok st then [] else [ErrorCallback f (error_message st)])
               @ (case most_recent_completion (completion_callback c)
                         (calls_before (while_reading host) (Suc (length msgs))
                          @ while_finishing host @ while_reporting host) of
                    None \<Rightarrow> []
                  | Some f \<Rightarrow> [CompletionCallback f])
         \<and> filter is_terminal pre = []
         \<and> completions (events_of r)
             = (case most_recent_completion (completion_callback c)
                       (calls_before (while_reading host) (Suc (length msgs))
                        @ while_finishing host @ while_reporting host) of
                  None \<Rightarrow> 0
                | Some f \<Rightarrow> 1)))
   \<and> (active_streams c sid = None \<longrightarrow>
        readStreamResponses c sid remote host st = Some ((), c, []))
   \<and> filter is_callback (events_of (closeStream c sid st)) = []
   \<and> processLegalDocument_thread cb accepts (remote_of documents) st
       = Some (concat (map (\<lambda>m. [ReaderRead (Some (documentResponseToJson m)),
                                  JsCallback cb (UTF8ToString (documentResponseToJson m))])
                 (takeWhile (\<lambda>m. accepts (UTF8ToString (documentResponseToJson m))) documents))
               @ (case dropWhile (\<lambda>m. accepts (UTF8ToString (documentResponseToJson m)))
                         documents of
                    [] \<Rightarrow> ReaderRead None # finish_reader ''Document processing failed: '' st
                  | m # ms \<Rightarrow> [ReaderRead (Some (documentResponseToJson m))]))
   \<and> performSemanticSearch_thread cb accepts (remote_of results) st
       = Some (concat (map (\<lambda>m. [ReaderRead (Some (searchResponseToJson m)),
                                  JsCallback cb (UTF8ToString (searchResponseToJson m))])
                 (takeWhile (\<lambda>m. accepts (UTF8ToString (searchResponseToJson m))) results))
               @ (case dropWhile (\<lambda>m. accepts (UTF8ToString (searchResponseToJson m)))
                         results of
                    [] \<Rightarrow> ReaderRead None # finish_reader ''Semantic search failed: '' st
                  | m # ms \<Rightarrow> [ReaderRead (Some (searchResponseToJson m))]))
   \<and> analyzeCaseSimilarity_thread cb accepts (remote_of similarities) st
       = Some (concat (map (\<lambda>m. [ReaderRead (Some (similarityResponseToJson m)),
                                  JsCallback cb (UTF8ToString (similarityResponseToJson m))])
                 (takeWhile (\<lambda>m. accepts (UTF8ToString (similarityResponseToJson m)))
                    similarities))
               @ (case dropWhile (\<lambda>m. accepts (UTF8ToString (similarityResponseToJson m)))
                         similarities of
                    [] \<Rightarrow> ReaderRead None
                          # finish_reader ''Case similarity analysis failed: '' st
                  | m # ms \<Rightarrow> [ReaderRead (Some (similarityResponseToJson m))]))
   \<and> (processLegalDocument_thread cb accepts document_remote st = Some evs_document
        \<longrightarrow> completions evs_document = 0)
   \<and> (performSemanticSearch_thread cb accepts search_remote st = Some evs_search
        \<longrightarrow> completions evs_search = 0)
   \<and> (analyzeCaseSimilarity_thread cb accepts similarity_remote st = Some evs_similarity
        \<longrightarrow> completions evs_similarity = 0)"
proof -
  have reader: "\<exists>r pre.
         readStreamResponses c sid (remote_of msgs) host st = Some r
         \<and> events_of r
             = pre @ [Finish (stream ctx) st]
               @ (case most_recent_error (error_callback c)
                         (calls_before (while_reading host) (Suc (length msgs))
                          @ while_finishing host) of
                    None \<Rightarrow> []
                  | Some f \<Rightarrow> if ok st then [] else [ErrorCallback f (error_message st)])
               @ (case most_recent_completion (completion_callback c)
                         (calls_before (while_reading host) (Suc (length msgs))
                          @ while_finishing host @ while_reporting host) of
                    None \<Rightarrow> []
                  | Some f \<Rightarrow> [CompletionCallback f])
         \<and> filter is_terminal pre = []
         \<and> completions (events_of r)
             = (case most_recent_completion (completion_callback c)
                       (calls_before (while_reading host) (Suc (length msgs))
                        @ while_finishing host @ while_reporting host) of
                  None \<Rightarrow> 0
                | Some f \<Rightarrow> 1)"
    if reg: "active_streams c sid = Some ctx \<and> active ctx"
  proof -
    let ?pre = "concat (map (\<lambda>i. Read (stream ctx) (Some (msgs ! i)) #
                 (case most_recent_response (response_callback c)
                         (calls_before (while_reading host) (Suc i)) of
                    None \<Rightarrow> []
                  | Some f \<Rightarrow> [ResponseCallback f (msgs ! i)]))
               [0..<length msgs]) @ [Read (stream ctx) None]"
    have t: "filter is_terminal ?pre = []" and n: "filter is_completion ?pre = []"
      by (simp_all add: reading_not_terminal reading_not_completion del: upt_Suc)
    from reg have r: "readStreamResponses c sid (remote_of msgs) host st = Some ((),
       apply_setters c
         (calls_before (while_reading host) (Suc (length msgs)) @ while_finishing host
          @ while_reporting host),
       ?pre @ [Finish (stream ctx) st]
       @ (case most_recent_error (error_callback c)
                 (calls_before (while_reading host) (Suc (length msgs)) @ while_finishing host) of
            None \<Rightarrow> []
          | Some f \<Rightarrow> if ok st then [] else [ErrorCallback f (error_message st)])
       @ (case most_recent_completion (completion_callback c)
                 (calls_before (while_reading host) (Suc (length msgs)) @ while_finishing host
                  @ while_reporting host) of
            None \<Rightarrow> []
          | Some f \<Rightarrow> [CompletionCallback f]))"
      using readStreamResponses_remote_of[of c sid ctx msgs host st] by simp
    show ?thesis
      apply (rule exI, rule exI[of _ ?pre])
      apply (intro conjI)
         apply (rule r)
        apply (simp del: upt_Suc)
       apply (rule t)
      using n
      apply (simp add: completions_def del: upt_Suc split: option.split)
      done
  qed
  have gone: "readStreamResponses c sid remote host st = Some ((), c, [])"
    if "active_streams c sid = None"
    using that by (simp add: readStreamResponses_def)
  have close: "filter is_callback (events_of (closeStream c sid st)) = []"
    by (simp add: closeStream_def split: option.split)
  note exact = job_thread_remote_of[of documentResponseToJson _ cb accepts documents st]
    job_thread_remote_of[of searchResponseToJson _ cb accepts results st]
    job_thread_remote_of[of similarityResponseToJson _ cb accepts similarities st]
  note never = job_thread_no_completion[of documentResponseToJson _ cb accepts document_remote st evs_document]
    job_thread_no_completion[of searchResponseToJson _ cb accepts search_remote st evs_search]
    job_thread_no_completion[of similarityResponseToJson _ cb accepts similarity_remote st evs_similarity]
  from reader gone close exact never show ?thesis
    unfolding thread_defs by blast
qed

theorem completion_callback_count_witness:
  "active_streams client_s1 ''s1'' = Some \<lparr>stream = 0, active = True, session_id = ''s1''\<rparr>
   \<and> active \<lparr>stream = 0, active = True, session_id = ''s1''\<rparr>
   \<and> (\<exists>r. readStreamResponses client_s1 ''s1'' (remote_of [''{}'']) no_calls
             \<lparr>ok = False, error_message = ''unavailable''\<rparr> = Some r
          \<and> filter is_terminal (events_of r)
              = [Finish 0 \<lparr>ok = False, error_message = ''unavailable''\<rparr>,
                 ErrorCallback 2 ''unavailable'', CompletionCallback 3]
          \<and> completions (events_of r) = 1)
   \<and> active_streams client_cb ''s1'' = None
   \<and> readStreamResponses client_cb ''s1'' never_ends no_calls \<lparr>ok = True, error_message = []\<rparr>
       = Some ((), client_cb, [])
   \<and> processLegalDocument_thread 9 accepts_doc1 (remote_of [response_doc1, response_quote])
        \<lparr>ok = False, error_message = ''unavailable''\<rparr>
       = Some [ReaderRead (Some (documentResponseToJson response_doc1)),
               JsCallback 9 (documentResponseToJson response_doc1),
               ReaderRead (Some (documentResponseToJson response_quote))]
   \<and> completions [ReaderRead (Some (documentResponseToJson response_doc1)),
                    JsCallback 9 (documentResponseToJson response_doc1),
                    ReaderRead (Some (documentResponseToJson response_quote))] = 0
   \<and> performSemanticSearch_thread 9 accepts_doc1 (remote_of [])
        \<lparr>ok = False, error_message = ''unavailable''\<rparr>
       = Some [ReaderRead None, ReaderFinish \<lparr>ok = False, error_message = ''unavailable''\<rparr>,
               ConsoleError ''Semantic search failed: unavailable'']
   \<and> completions [ReaderRead None,
                    ReaderFinish \<lparr>ok = False, error_message = ''unavailable''\<rparr>,
                    ConsoleError ''Semantic search failed: unavailable''] = 0
   \<and> analyzeCaseSimilarity_thread 9 accepts_doc1 (remote_of [])
        \<lparr>ok = True, error_message = []\<rparr>
       = Some [ReaderRead None, ReaderFinish \<lparr>ok = True, error_message = []\<rparr>]
   \<and> completions [ReaderRead None, ReaderFinish \<lparr>ok = True, error_message = []\<rparr>] = 0"
proof -
  have a: "active_streams client_s1 ''s1'' = Some \<lparr>stream = 0, active = True, session_id = ''s1''\<rparr>
           \<and> active \<lparr>stream = 0, active = True, session_id = ''s1''\<rparr>"
    by (simp add: example_defs op_defs Let_def)
  have cbs: "error_callback client_s1 = Some 2" "completion_callback client_s1 = Some 3"
    by (simp_all add: example_defs op_defs Let_def)
  have b: "active_streams client_cb ''s1'' = None"
    by (simp add: example_defs op_defs)
  note thm1 = completion_callback_count
      [where c = client_s1 and sid = "''s1''"
         and ctx = "\<lparr>stream = 0, active = True, session_id = ''s1''\<rparr>"
         and msgs = "[''{}'']" and host = no_calls
         and st = "\<lparr>ok = False, error_message = ''unavailable''\<rparr>"
         and cb = 9 and accepts = accepts_doc1
         and documents = "[response_doc1, response_quote]" and results = "[]"
         and document_remote = "remote_of [response_doc1, response_quote]"
         and evs_document = "[ReaderRead (Some (documentResponseToJson response_doc1)),
               JsCallback 9 (documentResponseToJson response_doc1),
               ReaderRead (Some (documentResponseToJson response_quote))]"
         and search_remote = "remote_of []"
         and evs_search = "[ReaderRead None,
               ReaderFinish \<lparr>ok = False, error_message = ''unavailable''\<rparr>,
               ConsoleError ''Semantic search failed: unavailable'']"]
  note thm2 = completion_callback_count
      [where c = client_cb and sid = "''s1''" and remote = never_ends and host = no_calls
         and st = "\<lparr>ok = True, error_message = []\<rparr>"
         and cb = 9 and accepts = accepts_doc1 and similarities = "[]"
         and similarity_remote = "remote_of []"
         and evs_similarity = "[ReaderRead None, ReaderFinish \<lparr>ok = True, error_message = []\<rparr>]"]
  have "\<exists>r pre. readStreamResponses client_s1 ''s1'' (remote_of [''{}'']) no_calls
             \<lparr>ok = False, error_message = ''unavailable''\<rparr> = Some r
      \<and> events_of r = pre @ [Finish 0 \<lparr>ok = False, error_message = ''unavailable''\<rparr>,
                 ErrorCallback 2 ''unavailable'', CompletionCallback 3]
      \<and> filter is_terminal pre = []
      \<and> completions (events_of r) = 1"
    using thm1[THEN conjunct1, THEN mp, OF a]
    by (simp add: cbs calls_before_def no_calls_def)
  then obtain r pre where
    r: "readStreamResponses client_s1 ''s1'' (remote_of [''{}'']) no_calls
             \<lparr>ok = False, error_message = ''unavailable''\<rparr> = Some r"
    and e: "events_of r = pre @ [Finish 0 \<lparr>ok = False, error_message = ''unavailable''\<rparr>,
                 ErrorCallback 2 ''unavailable'', CompletionCallback 3]"
    and p: "filter is_terminal pre = []"
    and n: "completions (events_of r) = 1"
    by blast
  from e p have t: "filter is_terminal (events_of r)
              = [Finish 0 \<lparr>ok = False, error_message = ''unavailable''\<rparr>,
                 ErrorCallback 2 ''unavailable'', CompletionCallback 3]"
    by simp
  have doc: "processLegalDocument_thread 9 accepts_doc1 (remote_of [response_doc1, response_quote])
        \<lparr>ok = False, error_message = ''unavailable''\<rparr>
       = Some [ReaderRead (Some (documentResponseToJson response_doc1)),
               JsCallback 9 (documentResponseToJson response_doc1),
               ReaderRead (Some (documentResponseToJson response_quote))]"
    using thm1 by (simp add: document_text_examples)
  with thm1 have zero: "completions [ReaderRead (Some (documentResponseToJson response_doc1)),
                    JsCallback 9 (documentResponseToJson response_doc1),
                    ReaderRead (Some (documentResponseToJson response_quote))] = 0"
    by blast
  have search: "performSemanticSearch_thread 9 accepts_doc1 (remote_of [])
        \<lparr>ok = False, error_message = ''unavailable''\<rparr>
       = Some [ReaderRead None, ReaderFinish \<lparr>ok = False, error_message = ''unavailable''\<rparr>,
               ConsoleError ''Semantic search failed: unavailable'']"
    using thm1 by (simp add: finish_reader_def)
  have sim: "analyzeCaseSimilarity_thread 9 accepts_doc1 (remote_of [])
        \<lparr>ok = True, error_message = []\<rparr>
       = Some [ReaderRead None, ReaderFinish \<lparr>ok = True, error_message = []\<rparr>]"
    using thm2 by (simp add: finish_reader_def)
  from search thm1 have zero_search: "completions [ReaderRead None,
                    ReaderFinish \<lparr>ok = False, error_message = ''unavailable''\<rparr>,
                    ConsoleError ''Semantic search failed: unavailable''] = 0"
    by blast
  from sim thm2 have zero_sim:
    "completions [ReaderRead None, ReaderFinish \<lparr>ok = True, error_message = []\<rparr>] = 0"
    by blast
  have gone: "readStreamResponses client_cb ''s1'' never_ends no_calls \<lparr>ok = True, error_message = []\<rparr>
       = Some ((), client_cb, [])"
    using thm2 b by blast
  from a r t n b gone doc zero search zero_search sim zero_sim show ?thesis by blast
qed

text \<open>
  The claim as it was stated fails for a document job on a client whose completion
  callback is set: the job ends with a failure on the console and no completion. It fails
  too for a session closed by the caller before its reader ran: neither \<open>closeStream\<close>
  nor the reader completes it.
\<close>

theorem completion_exactly_once_counterexample:
  "map_option trace
     (run (new_world ''https://legal.example'')
        [SetCompletionCallback 3,
         ProcessLegalDocument ''doc1'' ''text'' ''contract'' 9,
         RunDocumentThread 9 accepts_doc1 (remote_of [])
           \<lparr>ok = False, error_message = ''unavailable''\<rparr>])
     = Some [LogInitialized ''https://legal.example'',
             OpenDocumentReader (document_request ''doc1'' ''text'' ''contract''),
             SpawnDocumentThread 9,
             ReaderRead None, ReaderFinish \<lparr>ok = False, error_message = ''unavailable''\<rparr>,
             ConsoleError ''Document processing failed: unavailable'']
   \<and> map_option trace
     (run (new_world ''https://legal.example'')
        [SetCompletionCallback 3,
         StartBidirectionalStream ''s1'' True,
         CloseStream ''s1'' \<lparr>ok = True, error_message = []\<rparr>,
         RunReader ''s1'' (remote_of []) no_calls \<lparr>ok = True, error_message = []\<rparr>])
     = Some [LogInitialized ''https://legal.example'',
             OpenStream 0 True, SpawnReader ''s1'', LogStarted ''s1'',
             WritesDone 0, Finish 0 \<lparr>ok = True, error_message = []\<rparr>, LogClosed ''s1'']"
  by (simp add: new_world_def commit_def thread_done_def op_defs job_defs Let_def
        readStreamResponses_def thread_defs job_thread_def forward_responses.simps
        remote_of_def finish_reader_def)

text \<open>
  C10. The three callbacks are fields of the client, not of a session. The reader of any
  registered session, whatever setters the host calls before or during it, hands each
  message to the response callback set most recently when the message arrives, a failing
  status to the error callback set most recently when \<open>Finish\<close> has returned, and ends
  with the completion callback set most recently at that moment.
\<close>

theorem callbacks_are_client_wide:
  assumes "active_streams c sid = Some ctx" and "active ctx"
  shows "readStreamResponses c sid (remote_of msgs) host st =
     Some ((),
       apply_setters c
         (calls_before (while_reading host) (Suc (length msgs)) @ while_finishing host
          @ while_reporting host),
       concat (map (\<lambda>i. Read (stream ctx) (Some (msgs ! i)) #
                 (case most_recent_response (response_callback c)
                         (calls_before (while_reading host) (Suc i)) of
                    None \<Rightarrow> []
                  | Some f \<Rightarrow> [ResponseCallback f (msgs ! i)]))
               [0..<length msgs])
       @ [Read (stream ctx) None, Finish (stream ctx) st]
       @ (case most_recent_error (error_callback c)
                 (calls_before (while_reading host) (Suc (length msgs)) @ while_finishing host) of
            None \<Rightarrow> []
          | Some f \<Rightarrow> if ok st then [] else [ErrorCallback f (error_message st)])
       @ (case most_recent_completion (completion_callback c)
                 (calls_before (while_reading host) (Suc (length msgs)) @ while_finishing host
                  @ while_reporting host) of
            None \<Rightarrow> []
          | Some f \<Rightarrow> [CompletionCallback f]))"
  using assms by (rule readStreamResponses_remote_of)

theorem callbacks_are_client_wide_witness:
  "active_streams (client_after (startBidirectionalStream client_s1 ''s2'' True)) ''s1''
     = Some \<lparr>stream = 0, active = True, session_id = ''s1''\<rparr>
   \<and> response_callback (client_after (startBidirectionalStream client_s1 ''s2'' True)) = Some 1
   \<and> map_option events_of
       (readStreamResponses (client_after (startBidirectionalStream client_s1 ''s2'' True))
          ''s1'' (remote_of [''a'', ''b'']) sets_11_during_second_read
          \<lparr>ok = False, error_message = ''unavailable''\<rparr>)
     = Some [Read 0 (Some ''a''), ResponseCallback 1 ''a'',
             Read 0 (Some ''b''), ResponseCallback 11 ''b'', Read 0 None,
             Finish 0 \<lparr>ok = False, error_message = ''unavailable''\<rparr>,
             ErrorCallback 2 ''unavailable'', CompletionCallback 3]
   \<and> map_option events_of
       (readStreamResponses
          (client_after (setResponseCallback
             (client_after (startBidirectionalStream client_s1 ''s2'' True)) 11))
          ''s1'' (remote_of [''a'', ''b'']) no_calls
          \<lparr>ok = True, error_message = []\<rparr>)
     = Some [Read 0 (Some ''a''), ResponseCallback 11 ''a'',
             Read 0 (Some ''b''), ResponseCallback 11 ''b'', Read 0 None,
             Finish 0 \<lparr>ok = True, error_message = []\<rparr>, CompletionCallback 3]"
proof -
  have a: "active_streams (client_after (startBidirectionalStream client_s1 ''s2'' True)) ''s1''
           = Some \<lparr>stream = 0, active = True, session_id = ''s1''\<rparr>"
    by (simp add: example_defs op_defs Let_def)
  have a': "active_streams (client_after (setResponseCallback
             (client_after (startBidirectionalStream client_s1 ''s2'' True)) 11)) ''s1''
           = Some \<lparr>stream = 0, active = True, session_id = ''s1''\<rparr>"
    by (simp add: example_defs op_defs Let_def)
  have b: "active \<lparr>stream = 0, active = True, session_id = ''s1''\<rparr>" by simp
  have cbs: "response_callback (client_after (startBidirectionalStream client_s1 ''s2'' True)) = Some 1"
    "error_callback (client_after (startBidirectionalStream client_s1 ''s2'' True)) = Some 2"
    "completion_callback (client_after (startBidirectionalStream client_s1 ''s2'' True)) = Some 3"
    "response_callback (client_after (setResponseCallback
        (client_after (startBidirectionalStream client_s1 ''s2'' True)) 11)) = Some 11"
    "error_callback (client_after (setResponseCallback
        (client_after (startBidirectionalStream client_s1 ''s2'' True)) 11)) = Some 2"
    "completion_callback (client_after (setResponseCallback
        (client_after (startBidirectionalStream client_s1 ''s2'' True)) 11)) = Some 3"
    by (simp_all add: example_defs op_defs Let_def)
  have up: "[0..<2] = [0, Suc 0]" by (simp add: upt_conv_Cons)
  from callbacks_are_client_wide[OF a b, of "[''a'', ''b'']" sets_11_during_second_read
      "\<lparr>ok = False, error_message = ''unavailable''\<rparr>"]
    callbacks_are_client_wide[OF a' b, of "[''a'', ''b'']" no_calls
      "\<lparr>ok = True, error_message = []\<rparr>"]
    a cbs
  show ?thesis
    by (simp add: calls_before_def sets_11_during_second_read_def no_calls_def up)
qed

subsection \<open>The connected flag\<close>

text \<open>
  C9. After any sequence of calls on a new client, with any answers of the transport,
  \<open>isConnected\<close> returns true.
\<close>

theorem isConnected_forever:
  assumes "run (new_world endpoint) calls = Some w"
  shows "isConnected (client w)"
  using run_connected[OF assms]
  by (simp add: isConnected_def new_world_def new_client_def)

theorem isConnected_forever_witness:
  "\<exists>w. run (new_world ''https://legal.example'')
          [StartBidirectionalStream ''s1'' False,
           SendEmbeddingRequest ''s1'' ''hello'' True False,
           RunReader ''s1'' (remote_of []) no_calls \<lparr>ok = False, error_message = ''unavailable''\<rparr>,
           CloseStream ''s1'' \<lparr>ok = False, error_message = ''unavailable''\<rparr>] = Some w
       \<and> trace w
          = [LogInitialized ''https://legal.example'',
             OpenStream 0 False, SpawnReader ''s1'', LogStarted ''s1'',
             Write 0 (embedding_request ''s1'' ''hello'' True), WritesDone 0,
             Read 0 None, Finish 0 \<lparr>ok = False, error_message = ''unavailable''\<rparr>,
             WritesDone 0, Finish 0 \<lparr>ok = False, error_message = ''unavailable''\<rparr>,
             LogClosed ''s1'']
       \<and> isConnected (client w)"
proof -
  have "\<exists>w. run (new_world ''https://legal.example'')
          [StartBidirectionalStream ''s1'' False,
           SendEmbeddingRequest ''s1'' ''hello'' True False,
           RunReader ''s1'' (remote_of []) no_calls \<lparr>ok = False, error_message = ''unavailable''\<rparr>,
           CloseStream ''s1'' \<lparr>ok = False, error_message = ''unavailable''\<rparr>] = Some w
       \<and> trace w
          = [LogInitialized ''https://legal.example'',
             OpenStream 0 False, SpawnReader ''s1'', LogStarted ''s1'',
             Write 0 (embedding_request ''s1'' ''hello'' True), WritesDone 0,
             Read 0 None, Finish 0 \<lparr>ok = False, error_message = ''unavailable''\<rparr>,
             WritesDone 0, Finish 0 \<lparr>ok = False, error_message = ''unavailable''\<rparr>,
             LogClosed ''s1'']"
    by (simp add: new_world_def commit_def op_defs Let_def readStreamResponses_def
          read_loop.simps remote_of_def thread_done_def no_calls_def)
  then obtain w where w: "run (new_world ''https://legal.example'')
          [StartBidirectionalStream ''s1'' False,
           SendEmbeddingRequest ''s1'' ''hello'' True False,
           RunReader ''s1'' (remote_of []) no_calls \<lparr>ok = False, error_message = ''unavailable''\<rparr>,
           CloseStream ''s1'' \<lparr>ok = False, error_message = ''unavailable''\<rparr>] = Some w"
    and t: "trace w
          = [LogInitialized ''https://legal.example'',
             OpenStream 0 False, SpawnReader ''s1'', LogStarted ''s1'',
             Write 0 (embedding_request ''s1'' ''hello'' True), WritesDone 0,
             Read 0 None, Finish 0 \<lparr>ok = False, error_message = ''unavailable''\<rparr>,
             WritesDone 0, Finish 0 \<lparr>ok = False, error_message = ''unavailable''\<rparr>,
             LogClosed ''s1'']"
    by blast
  from isConnected_forever[OF w] w t show ?thesis by blast
qed

subsection \<open>One-shot jobs\<close>

text \<open>
  C6. \<open>processLegalDocument\<close> opens exactly one document reader, with a request that
  carries the id, content and type it was given and asks for entity extraction, a summary,
  embeddings and sentiment analysis whatever the document is, and for clause detection
  exactly when the document type is the string \<open>contract\<close>.
\<close>

theorem document_request_flags:
  "\<exists>request f.
     filter is_open_document
       (events_of (processLegalDocument c doc_id content doc_type progress_callback))
       = [OpenDocumentReader request]
     \<and> document_id request = doc_id \<and> document_content request = content
     \<and> document_type request = doc_type
     \<and> flags request = Some f
     \<and> extract_entities f \<and> generate_summary f \<and> compute_embeddings f \<and> analyze_sentiment f
     \<and> detect_clauses f = (doc_type = ''contract'')"
  by (simp add: processLegalDocument_def document_request_def DocumentRequest_new_def
        ProcessingFlags_new_def)

end
